theory Spec2Isabelle
  imports
    Complex_Main
    "HOL-Library.Char_ord"
    "HOL-Library.List_Lexorder"
    "HOL-Library.Product_Lexorder"
begin

section \<open>Tabular data\<close>

text \<open>
  Both utilities work on tables of the data-table library. A cell is a scalar: missing
  (the library's NaN / None / NaT), a number, a text or a date. Numbers are exact
  rationals here: the binary rounding of the run-time's 64-bit floats is not part of the
  model. A date keeps year, month and day.
\<close>

datatype cell = NA | Num rat | Str string | Date nat nat nat

text \<open>
  A table has an ordered list of column names and an ordered list of rows; a row gives
  the cell under each column name.
\<close>

type_synonym row = "string \<Rightarrow> cell"

record frame =
  columns :: "string list"
  rows :: "row list"

definition column :: "frame \<Rightarrow> string \<Rightarrow> cell list" where
  \<comment> \<open>\<open>df[name]\<close>, read\<close>
  "column f name = map (\<lambda>r. r name) (rows f)"

definition dropna_all :: "frame \<Rightarrow> frame" where
  \<comment> \<open>\<open>df.dropna(how="all")\<close>: rows whose every cell is missing are dropped\<close>
  "dropna_all f = f\<lparr>rows := filter (\<lambda>r. \<not> list_all (\<lambda>c. r c = NA) (columns f)) (rows f)\<rparr>"

subsection \<open>Numeric coercion\<close>

text \<open>
  \<open>pd.to_numeric(col, errors="coerce")\<close> keeps a number and turns every other cell into
  the number the library reads from it, or into missing when it reads none. What the
  library reads from a text or a date is not code of this repository and may depend on
  the whole column, so it is the parameter \<open>P\<close>: the pipeline is verified for every
  such reader.
\<close>

type_synonym num_reader = "cell list \<Rightarrow> cell \<Rightarrow> rat option"

fun to_numeric_cell :: "num_reader \<Rightarrow> cell list \<Rightarrow> cell \<Rightarrow> cell" where
  "to_numeric_cell P col (Num x) = Num x"
| "to_numeric_cell P col c = (case P col c of Some x \<Rightarrow> Num x | None \<Rightarrow> NA)"

definition to_numeric :: "num_reader \<Rightarrow> cell list \<Rightarrow> cell list" where
  "to_numeric P col = map (to_numeric_cell P col) col"

fun fillna_cell :: "cell \<Rightarrow> cell \<Rightarrow> cell" where
  "fillna_cell v NA = v"
| "fillna_cell v c = c"

definition fillna :: "cell \<Rightarrow> cell list \<Rightarrow> cell list" where
  "fillna v col = map (fillna_cell v) col"

definition coerce_amount :: "num_reader \<Rightarrow> cell list \<Rightarrow> cell list" where
  \<comment> \<open>line 57: \<open>pd.to_numeric(df["Amount"], errors="coerce").fillna(0.0)\<close>\<close>
  "coerce_amount P col = fillna (Num 0) (to_numeric P col)"

fun num_of :: "cell \<Rightarrow> rat" where
  "num_of (Num x) = x"
| "num_of c = 0"

fun numeric :: "cell \<Rightarrow> bool" where
  "numeric (Num x) = True"
| "numeric c = False"

subsection \<open>Dates and the year-month key\<close>

text \<open>
  \<open>pd.to_datetime(col, errors="coerce")\<close> keeps a date, keeps a missing cell missing and
  turns a number or a text into the date the library reads from it, or into missing
  when it reads none. The library's reader is the parameter \<open>D\<close>.
\<close>

type_synonym date_reader = "cell list \<Rightarrow> cell \<Rightarrow> (nat \<times> nat \<times> nat) option"

fun to_datetime_cell :: "date_reader \<Rightarrow> cell list \<Rightarrow> cell \<Rightarrow> cell" where
  "to_datetime_cell D col (Date y m d) = Date y m d"
| "to_datetime_cell D col NA = NA"
| "to_datetime_cell D col c = (case D col c of Some (y, m, d) \<Rightarrow> Date y m d | None \<Rightarrow> NA)"

definition to_datetime :: "date_reader \<Rightarrow> cell list \<Rightarrow> cell list" where
  "to_datetime D col = map (to_datetime_cell D col) col"

fun show_nat :: "nat \<Rightarrow> string" where
  "show_nat n =
     (if n < 10 then [''0123456789'' ! n]
      else show_nat (n div 10) @ [''0123456789'' ! (n mod 10)])"

declare show_nat.simps [simp del]

definition zfill :: "nat \<Rightarrow> string \<Rightarrow> string" where
  "zfill w s = replicate (w - length s) (CHR ''0'') @ s"

fun period_str :: "cell \<Rightarrow> cell" where
  \<comment> \<open>\<open>.dt.to_period("M").astype(str)\<close>: year, dash, two-digit month; a missing date
      becomes the text NaT\<close>
  "period_str (Date y m d) = Str (zfill 4 (show_nat y) @ ''-'' @ zfill 2 (show_nat m))"
| "period_str c = Str ''NaT''"

subsection \<open>The VAT column\<close>

definition round_half_even :: "rat \<Rightarrow> int" where
  "round_half_even x =
     (let f = \<lfloor>x\<rfloor>; d = x - of_int f
      in if d < 1 / 2 then f else if 1 / 2 < d then f + 1
         else if even f then f else f + 1)"

definition round2 :: "rat \<Rightarrow> rat" where
  \<comment> \<open>\<open>.round(2)\<close>: to two decimals, a tie to the even neighbour\<close>
  "round2 x = of_int (round_half_even (x * 100)) / 100"

definition vat_20 :: "cell list \<Rightarrow> cell list" where
  \<comment> \<open>line 65: \<open>(df["Amount"] * 0.20).round(2)\<close>\<close>
  "vat_20 col = map (\<lambda>c. Num (round2 (num_of c * (1 / 5)))) col"

subsection \<open>Column assignment and row selection, as the library does them\<close>

definition assign_values :: "string \<Rightarrow> cell list \<Rightarrow> frame \<Rightarrow> frame" where
  \<comment> \<open>\<open>df[name] = series\<close>, the series aligned with the rows\<close>
  "assign_values name vals f =
     f\<lparr>columns := (if name \<in> set (columns f) then columns f else columns f @ [name]),
       rows := map (\<lambda>(r, v). r(name := v)) (zip (rows f) vals)\<rparr>"

definition assign_scalar :: "string \<Rightarrow> cell \<Rightarrow> frame \<Rightarrow> frame" where
  \<comment> \<open>\<open>df[name] = constant\<close>\<close>
  "assign_scalar name v f = assign_values name (replicate (length (rows f)) v) f"

definition select_mask :: "bool list \<Rightarrow> frame \<Rightarrow> frame" where
  \<comment> \<open>\<open>df[mask]\<close>\<close>
  "select_mask bs f = f\<lparr>rows := map fst (filter snd (zip (rows f) bs))\<rparr>"

definition positive_mask :: "cell list \<Rightarrow> bool list" where
  \<comment> \<open>\<open>df["Amount"] > 0\<close>\<close>
  "positive_mask col = map (\<lambda>c. 0 < num_of c) col"

subsection \<open>What the library decides\<close>

text \<open>
  Three things are the table library's and not this repository's, and differ with the
  type of a column: the arithmetic of a sum (a column of 64-bit integers sums with
  wrap-around, a column of floats with rounding), the rank of the kinds of value when a
  key column mixes them, and whether a sort of such a column ends in a type error. They
  are the fields of the parameter \<open>L\<close>; the pipeline is verified for every \<open>L\<close>.
  \<open>lib_sum\<close> receives the numbers of one group in row order.
\<close>

datatype sort_call = SortValues | SortIndex | PivotColumns

datatype error = TypeError | ValueError | AttributeError | OSError

record library =
  lib_sum :: "rat list \<Rightarrow> rat"
  lib_rank :: "nat \<Rightarrow> nat"
  lib_sorts :: "sort_call \<Rightarrow> cell list list \<Rightarrow> bool"

subsection \<open>Ordering of keys\<close>

text \<open>
  Keys of one kind are ordered as the run-time orders them: numbers by value, texts by
  code point with a prefix first, dates by time. The key of a cell embeds it into a
  linear order: the kind first (numbers 0, texts 1, dates 2, missing 3; missing sorts
  last), then the value. \<open>key_of\<close> is the key with the kinds ranked as the library
  ranks them.
\<close>

type_synonym ord_key = "nat \<times> rat \<times> string \<times> nat \<times> nat \<times> nat"

fun cell_key :: "cell \<Rightarrow> ord_key" where
  "cell_key (Num x) = (0, x, [], 0, 0, 0)"
| "cell_key (Str s) = (1, 0, s, 0, 0, 0)"
| "cell_key (Date y m d) = (2, 0, [], y, m, d)"
| "cell_key NA = (3, 0, [], 0, 0, 0)"

definition key_of :: "library \<Rightarrow> cell \<Rightarrow> ord_key" where
  "key_of L c = (case cell_key c of (k, v) \<Rightarrow> (lib_rank L k, v))"

fun same_kind :: "cell \<Rightarrow> cell \<Rightarrow> bool" where
  "same_kind NA c = True"
| "same_kind c NA = True"
| "same_kind (Num x) (Num y) = True"
| "same_kind (Str s) (Str t) = True"
| "same_kind (Date y m d) (Date y' m' d') = True"
| "same_kind c c' = False"

definition comparable :: "cell list \<Rightarrow> bool" where
  "comparable col = list_all (\<lambda>a. list_all (same_kind a) col) col"

subsection \<open>Grouped sums\<close>

definition keys_present :: "string list \<Rightarrow> row \<Rightarrow> bool" where
  "keys_present keys r = list_all (\<lambda>k. r k \<noteq> NA) keys"

definition group_keys :: "library \<Rightarrow> string list \<Rightarrow> frame \<Rightarrow> cell list list" where
  \<comment> \<open>the distinct key tuples of the rows whose keys are all present, in key order\<close>
  "group_keys L keys f =
     sort_key (map (key_of L))
       (remdups (map (\<lambda>r. map r keys) (filter (keys_present keys) (rows f))))"

definition group_total :: "library \<Rightarrow> string list \<Rightarrow> string \<Rightarrow> frame \<Rightarrow> cell list \<Rightarrow> rat"
  where
  "group_total L keys val f ks =
     lib_sum L (map (\<lambda>r. num_of (r val)) (filter (\<lambda>r. map r keys = ks) (rows f)))"

definition key_row :: "string list \<Rightarrow> cell list \<Rightarrow> row" where
  "key_row keys ks = (\<lambda>n. case map_of (zip keys ks) n of Some v \<Rightarrow> v | None \<Rightarrow> NA)"

definition groupby_sum :: "library \<Rightarrow> string list \<Rightarrow> string \<Rightarrow> frame \<Rightarrow> frame" where
  \<comment> \<open>\<open>df.groupby(keys, as_index=False)[val].sum()\<close>: one row for each key tuple, rows
      with a missing key left out, groups in key order\<close>
  "groupby_sum L keys val f =
     \<lparr>columns = keys @ [val],
      rows = map (\<lambda>ks. (key_row keys ks)(val := Num (group_total L keys val f ks)))
               (group_keys L keys f)\<rparr>"

definition sort_values :: "library \<Rightarrow> string list \<Rightarrow> frame \<Rightarrow> error + frame" where
  \<comment> \<open>\<open>df.sort_values(keys)\<close>: ascending, stable, the first key the most significant\<close>
  "sort_values L keys f =
     (if lib_sorts L SortValues (map (column f) keys)
      then Inr (f\<lparr>rows := sort_key (\<lambda>r. map (\<lambda>k. key_of L (r k)) keys) (rows f)\<rparr>)
      else Inl TypeError)"

subsection \<open>Pivot\<close>

text \<open>
  A pivot has the column labels and, for each index label, the row of values under
  those labels.
\<close>

record pivot =
  pv_columns :: "cell list"
  pv_rows :: "(cell \<times> rat list) list"

definition pivot_cell ::
  "library \<Rightarrow> string \<Rightarrow> string \<Rightarrow> string \<Rightarrow> rat \<Rightarrow> row list \<Rightarrow> cell \<Rightarrow> cell \<Rightarrow> rat" where
  "pivot_cell L index cols val fill rs c m =
     (let g = filter (\<lambda>r. r index = c \<and> r cols = m) rs
      in if g = [] then fill else lib_sum L (map (\<lambda>r. num_of (r val)) g))"

definition pivot_table ::
  "library \<Rightarrow> string \<Rightarrow> string \<Rightarrow> string \<Rightarrow> rat \<Rightarrow> frame \<Rightarrow> error + pivot" where
  \<comment> \<open>\<open>df.pivot_table(index=.., columns=.., values=.., aggfunc="sum", fill_value=..)\<close>:
      rows with a missing key are left out; the labels are the distinct keys in key
      order; a cell is the sum of its group, or the fill value when the group is empty\<close>
  "pivot_table L index cols val fill f =
     (let rs = filter (keys_present [index, cols]) (rows f);
          idx = sort_key (key_of L) (remdups (map (\<lambda>r. r index) rs));
          cls = sort_key (key_of L) (remdups (map (\<lambda>r. r cols) rs))
      in if lib_sorts L PivotColumns [cls]
         then Inr \<lparr>pv_columns = cls,
                   pv_rows = map (\<lambda>c. (c, map (pivot_cell L index cols val fill rs c) cls)) idx\<rparr>
         else Inl TypeError)"

definition sort_index :: "library \<Rightarrow> pivot \<Rightarrow> error + pivot" where
  \<comment> \<open>\<open>.sort_index()\<close>: rows in ascending order of the index label\<close>
  "sort_index L p =
     (if lib_sorts L SortIndex [map fst (pv_rows p)]
      then Inr (p\<lparr>pv_rows := sort_key (\<lambda>(c, vs). key_of L c) (pv_rows p)\<rparr>)
      else Inl TypeError)"

subsection \<open>Two libraries\<close>

text \<open>
  \<open>exact_library\<close> sums exactly, as the run-time does as long as no sum leaves the range
  of its numbers or is rounded; it ranks numbers before texts, and a sort by one key or
  by the index fails on a column that mixes kinds, a sort by two keys does not.
  \<open>int64_library\<close> differs in the sum: that of a column of 64-bit integers, which wraps
  around.
\<close>

definition sorts_one_kind :: "sort_call \<Rightarrow> cell list list \<Rightarrow> bool" where
  "sorts_one_kind call cols =
     (case call of
        SortValues \<Rightarrow> (if length cols = 1 then list_all comparable cols else True)
      | SortIndex \<Rightarrow> list_all comparable cols
      | PivotColumns \<Rightarrow> True)"

definition exact_library :: library where
  "exact_library = \<lparr>lib_sum = sum_list, lib_rank = (\<lambda>k. k), lib_sorts = sorts_one_kind\<rparr>"

definition wrap64 :: "int \<Rightarrow> int" where
  \<comment> \<open>the signed 64-bit integer that an integer is modulo \<open>2^64\<close>\<close>
  "wrap64 n = (n + 2 ^ 63) mod 2 ^ 64 - 2 ^ 63"

definition int64_library :: library where
  "int64_library =
     \<lparr>lib_sum = (\<lambda>vs. of_int (wrap64 \<lfloor>sum_list vs\<rfloor>)), lib_rank = (\<lambda>k. k),
      lib_sorts = sorts_one_kind\<rparr>"

section \<open>The transformation pipeline\<close>

text \<open>
  \<open>manipulate\<close> assigns to the columns of its tables in place, so the tables live in a
  store and the function passes addresses, as the run-time passes references. A new
  table is put at a fresh address. The totals and the pivot are built by one expression
  each and never assigned to: they are returned as values.
\<close>

type_synonym addr = nat
type_synonym store = "frame list"

definition alloc :: "frame \<Rightarrow> store \<Rightarrow> addr \<times> store" where
  "alloc f s = (length s, s @ [f])"

definition modify :: "addr \<Rightarrow> (frame \<Rightarrow> frame) \<Rightarrow> store \<Rightarrow> store" where
  "modify a g s = s[a := g (s ! a)]"

definition manipulate_with ::
  "library \<Rightarrow> num_reader \<Rightarrow> date_reader \<Rightarrow> addr \<Rightarrow> store \<Rightarrow>
     (error + addr \<times> addr \<times> frame \<times> pivot option) \<times> store" where
  "manipulate_with L P D df0 s0 =
    (let \<comment> \<open>line 52: drop the empty rows, copy\<close>
         (df, s1) = alloc (dropna_all (s0 ! df0)) s0;
         \<comment> \<open>lines 55-57\<close>
         s2 = (if ''Amount'' \<notin> set (columns (s1 ! df))
               then modify df (assign_scalar ''Amount'' (Num 1)) s1 else s1);
         s3 = modify df
                (\<lambda>f. assign_values ''Amount'' (coerce_amount P (column f ''Amount'')) f) s2;
         \<comment> \<open>lines 60-62\<close>
         s4 = (if ''Date'' \<in> set (columns (s3 ! df))
               then modify df
                      (\<lambda>f. assign_values ''YearMonth'' (map period_str (column f ''Date'')) f)
                      (modify df
                         (\<lambda>f. assign_values ''Date'' (to_datetime D (column f ''Date'')) f) s3)
               else s3);
         \<comment> \<open>line 65\<close>
         s5 = modify df (\<lambda>f. assign_values ''VAT_20'' (vat_20 (column f ''Amount'')) f) s4;
         \<comment> \<open>line 68: the rows with a positive amount, copied\<close>
         (df_pos, s6) =
            alloc (select_mask (positive_mask (column (s5 ! df) ''Amount'')) (s5 ! df)) s5;
         \<comment> \<open>lines 71-73\<close>
         s7 = (if ''Category'' \<notin> set (columns (s6 ! df))
               then modify df_pos (assign_scalar ''Category'' (Str ''All''))
                      (modify df (assign_scalar ''Category'' (Str ''All'')) s6)
               else s6)
     in \<comment> \<open>lines 75-90\<close>
        if ''YearMonth'' \<in> set (columns (s7 ! df)) then
          (case sort_values L [''Category'', ''YearMonth'']
                  (groupby_sum L [''Category'', ''YearMonth''] ''Amount'' (s7 ! df_pos)) of
             Inl e \<Rightarrow> (Inl e, s7)
           | Inr totals \<Rightarrow>
               (case pivot_table L ''Category'' ''YearMonth'' ''Amount'' 0 (s7 ! df_pos) of
                  Inl e \<Rightarrow> (Inl e, s7)
                | Inr table \<Rightarrow>
                    (case sort_index L table of
                       Inl e \<Rightarrow> (Inl e, s7)
                     | Inr pv \<Rightarrow> (Inr (df, df_pos, totals, Some pv), s7))))
        else
          (case sort_values L [''Category'']
                  (groupby_sum L [''Category''] ''Amount'' (s7 ! df_pos)) of
             Inl e \<Rightarrow> (Inl e, s7)
           | Inr totals \<Rightarrow> (Inr (df, df_pos, totals, None), s7)))"

definition manipulate ::
  "num_reader \<Rightarrow> date_reader \<Rightarrow> addr \<Rightarrow> store \<Rightarrow>
     (error + addr \<times> addr \<times> frame \<times> pivot option) \<times> store" where
  \<comment> \<open>the pipeline where the library's sums are exact\<close>
  "manipulate = manipulate_with exact_library"

subsection \<open>The tables of the pipeline as functions of the input table\<close>

text \<open>
  The same steps without the store, for the proofs: \<open>prepared\<close> is the table \<open>df\<close> after
  line 65, \<open>cleaned\<close> and \<open>positive\<close> are the two tables returned, \<open>summaries\<close> are the
  totals and the pivot.
\<close>

definition assign :: "string \<Rightarrow> (row \<Rightarrow> cell) \<Rightarrow> frame \<Rightarrow> frame" where
  \<comment> \<open>a column assignment read row by row\<close>
  "assign name g f =
     f\<lparr>columns := (if name \<in> set (columns f) then columns f else columns f @ [name]),
       rows := map (\<lambda>r. r(name := g r)) (rows f)\<rparr>"

definition with_amount :: "num_reader \<Rightarrow> frame \<Rightarrow> frame" where
  "with_amount P f =
     (let g = (if ''Amount'' \<notin> set (columns f) then assign_scalar ''Amount'' (Num 1) f else f)
      in assign_values ''Amount'' (coerce_amount P (column g ''Amount'')) g)"

definition with_year_month :: "date_reader \<Rightarrow> frame \<Rightarrow> frame" where
  "with_year_month D f =
     (if ''Date'' \<in> set (columns f)
      then (let g = assign_values ''Date'' (to_datetime D (column f ''Date'')) f
            in assign_values ''YearMonth'' (map period_str (column g ''Date'')) g)
      else f)"

definition prepared :: "num_reader \<Rightarrow> date_reader \<Rightarrow> frame \<Rightarrow> frame" where
  "prepared P D f =
     (let g = with_year_month D (with_amount P (dropna_all f))
      in assign_values ''VAT_20'' (vat_20 (column g ''Amount'')) g)"

definition with_category :: "bool \<Rightarrow> frame \<Rightarrow> frame" where
  "with_category missing f = (if missing then assign_scalar ''Category'' (Str ''All'') f else f)"

definition cleaned :: "num_reader \<Rightarrow> date_reader \<Rightarrow> frame \<Rightarrow> frame" where
  "cleaned P D f =
     (let g = prepared P D f in with_category (''Category'' \<notin> set (columns g)) g)"

definition positive :: "num_reader \<Rightarrow> date_reader \<Rightarrow> frame \<Rightarrow> frame" where
  "positive P D f =
     (let g = prepared P D f
      in with_category (''Category'' \<notin> set (columns g))
           (select_mask (positive_mask (column g ''Amount'')) g))"

definition summaries :: "library \<Rightarrow> bool \<Rightarrow> frame \<Rightarrow> error + frame \<times> pivot option" where
  "summaries L by_month pos =
     (if by_month then
        (case sort_values L [''Category'', ''YearMonth'']
                (groupby_sum L [''Category'', ''YearMonth''] ''Amount'' pos) of
           Inl e \<Rightarrow> Inl e
         | Inr totals \<Rightarrow>
             (case pivot_table L ''Category'' ''YearMonth'' ''Amount'' 0 pos of
                Inl e \<Rightarrow> Inl e
              | Inr table \<Rightarrow>
                  (case sort_index L table of
                     Inl e \<Rightarrow> Inl e
                   | Inr pv \<Rightarrow> Inr (totals, Some pv))))
      else
        (case sort_values L [''Category''] (groupby_sum L [''Category''] ''Amount'' pos) of
           Inl e \<Rightarrow> Inl e
         | Inr totals \<Rightarrow> Inr (totals, None)))"

subsection \<open>The sample dataset\<close>

definition sample_rows :: "(nat \<times> nat \<times> nat) list \<Rightarrow> string list \<Rightarrow> rat list \<Rightarrow> string list \<Rightarrow> row list"
  where
  "sample_rows ds cs as ns =
     map (\<lambda>((y, m, d), c, a, n).
            (\<lambda>_. NA)(''Date'' := Date y m d, ''Category'' := Str c,
                      ''Amount'' := Num a, ''Notes'' := Str n))
       (zip ds (zip cs (zip as ns)))"

definition sample :: frame where
  \<comment> \<open>the table of \<open>create_sample_excel\<close>, lines 16-29\<close>
  "sample =
     \<lparr>columns = [''Date'', ''Category'', ''Amount'', ''Notes''],
      rows = sample_rows
        [(2025, 1, 5), (2025, 1, 10), (2025, 2, 3), (2025, 2, 15), (2025, 3, 7), (2025, 3, 20)]
        [''Food'', ''Transport'', ''Food'', ''Rent'', ''Transport'', ''Food'']
        [50, 20, 30, 500, 25, 45]
        [''Groceries'', ''Bus fare'', ''Lunch'', ''Monthly rent'', ''Taxi'', ''Dinner'']\<rparr>"

subsection \<open>Small tables for the examples\<close>

definition no_number :: num_reader where
  \<comment> \<open>a reader that reads no number from any text or date\<close>
  "no_number = (\<lambda>col c. None)"

definition no_date :: date_reader where
  "no_date = (\<lambda>col c. None)"

definition ledger :: frame where
  \<comment> \<open>no Date column; a negative amount, an unreadable amount and an empty row\<close>
  "ledger =
     \<lparr>columns = [''Category'', ''Amount''],
      rows = [(\<lambda>_. NA)(''Category'' := Str ''Food'', ''Amount'' := Num 12),
              (\<lambda>_. NA)(''Category'' := Str ''Food'', ''Amount'' := Num (- 7 / 2)),
              (\<lambda>_. NA),
              (\<lambda>_. NA)(''Category'' := Str ''Rent'', ''Amount'' := Str ''n/a''),
              (\<lambda>_. NA)(''Category'' := Str ''Books'', ''Amount'' := Num 8),
              (\<lambda>_. NA)(''Category'' := Str ''Food'', ''Amount'' := Num 3)]\<rparr>"

definition notes_only :: frame where
  \<comment> \<open>no Amount column\<close>
  "notes_only =
     \<lparr>columns = [''Category'', ''Notes''],
      rows = [(\<lambda>_. NA)(''Category'' := Str ''Food'', ''Notes'' := Str ''Lunch''),
              (\<lambda>_. NA),
              (\<lambda>_. NA)(''Category'' := Str ''Rent'')]\<rparr>"



definition big_ledger :: frame where
  \<comment> \<open>two integer amounts whose sum is \<open>2^63\<close>, one more than the largest 64-bit integer\<close>
  "big_ledger =
     \<lparr>columns = [''Category'', ''Amount''],
      rows = [(\<lambda>_. NA)(''Category'' := Str ''Food'', ''Amount'' := Num 9223372036854775807),
              (\<lambda>_. NA)(''Category'' := Str ''Food'', ''Amount'' := Num 1)]\<rparr>"


section \<open>The HTML exporter\<close>

text \<open>
  The exporter reads every sheet with all cells as text, so a cell of a sheet is a text
  or missing. A workbook is the list of its sheets with their names, in sheet order.
  Strings are byte strings; \<open>lower\<close> folds the ASCII capitals, the only characters whose
  lower case is a letter of the word all.
\<close>

record sheet_table =
  header :: "string list"
  body :: "string option list list"

type_synonym workbook = "(string \<times> sheet_table) list"

definition lower_char :: "char \<Rightarrow> char" where
  "lower_char c =
     (case map_of (zip ''ABCDEFGHIJKLMNOPQRSTUVWXYZ'' ''abcdefghijklmnopqrstuvwxyz'') c of
        Some d \<Rightarrow> d
      | None \<Rightarrow> c)"

definition lower :: "string \<Rightarrow> string" where
  \<comment> \<open>\<open>str.lower()\<close>\<close>
  "lower s = map lower_char s"

definition fillna_table :: "string \<Rightarrow> sheet_table \<Rightarrow> sheet_table" where
  \<comment> \<open>\<open>df.fillna(args.na)\<close>\<close>
  "fillna_table v t =
     t\<lparr>body := map (map (\<lambda>c. case c of None \<Rightarrow> Some v | Some s \<Rightarrow> Some s)) (body t)\<rparr>"

subsection \<open>Rendering\<close>

text \<open>
  \<open>df.to_html(index=False, border=0, classes="tbl", table_id=..)\<close> is the library's: a
  table element with a header row and one row for each row of the sheet, the texts of
  the header and of the cells escaped. A missing cell is rendered as NaN. (The library
  cuts a cell text longer than its display width; the model keeps it whole.)
\<close>

definition escape_char :: "char \<Rightarrow> string" where
  "escape_char c =
     (if c = CHR ''&'' then ''&amp;'' else if c = CHR ''<'' then ''&lt;''
      else if c = CHR ''>'' then ''&gt;'' else [c])"

definition escape :: "string \<Rightarrow> string" where
  "escape s = concat (map escape_char s)"

definition th_line :: "string \<Rightarrow> string" where
  "th_line c = ''      <th>'' @ escape c @ ''</th>\<newline>''"

definition td_line :: "string option \<Rightarrow> string" where
  "td_line c =
     ''      <td>'' @ escape (case c of None \<Rightarrow> ''NaN'' | Some s \<Rightarrow> s) @ ''</td>\<newline>''"

definition tr_lines :: "string option list \<Rightarrow> string" where
  "tr_lines r = ''    <tr>\<newline>'' @ concat (map td_line r) @ ''    </tr>\<newline>''"

definition to_html :: "sheet_table \<Rightarrow> string \<Rightarrow> string" where
  \<open>to_html t table_id =
     ''<table border="0" class="dataframe tbl" id="'' @ table_id @ ''">\<newline>'' @
     ''  <thead>\<newline>    <tr style="text-align: right;">\<newline>'' @
     concat (map th_line (header t)) @
     ''    </tr>\<newline>  </thead>\<newline>  <tbody>\<newline>'' @
     concat (map tr_lines (body t)) @
     ''  </tbody>\<newline></table>''\<close>

definition page_head :: string where
  \<comment> \<open>lines 19-33 and 45-59, the same text in both functions\<close>
  \<open>page_head =
     ''<!doctype html>\<newline><html>\<newline><head>\<newline><meta charset="utf-8">\<newline>'' @
     ''<title>Excel to HTML</title>\<newline><style>\<newline>'' @
     ''    body { font-family: Arial, Helvetica, sans-serif; margin: 24px; }\<newline>'' @
     ''    h2 { margin-top: 32px; }\<newline>'' @
     ''    table.tbl { border-collapse: collapse; width: 100%; }\<newline>'' @
     ''    table.tbl th, table.tbl td { border: 1px solid #ddd; padding: 8px; }\<newline>'' @
     ''    table.tbl tr:nth-child(even) { background: #f9f9f9; }\<newline>'' @
     ''    table.tbl th { background: #f1f1f1; text-align: left; }\<newline>'' @
     ''</style>\<newline></head>\<newline><body>\<newline>''\<close>

definition page_tail :: string where
  "page_tail = ''\<newline></body>\<newline></html>''"

definition df_to_html :: "sheet_table \<Rightarrow> string \<Rightarrow> string" where
  \<comment> \<open>lines 15-37\<close>
  "df_to_html df table_id = page_head @ to_html df table_id @ page_tail"

fun sheet_parts :: "nat \<Rightarrow> workbook \<Rightarrow> string list" where
  \<comment> \<open>the loop of lines 42-44, \<open>i\<close> the number of the next sheet\<close>
  "sheet_parts i [] = []"
| "sheet_parts i ((sheet, df) # rest) =
     (''<h2>'' @ sheet @ ''</h2>\<newline>'' @ to_html df (''tbl_'' @ show_nat i))
       # sheet_parts (Suc i) rest"

definition dfs_to_html :: "workbook \<Rightarrow> string" where
  \<comment> \<open>lines 39-62\<close>
  "dfs_to_html maps = page_head @ concat (sheet_parts 1 maps) @ page_tail"

subsection \<open>The command\<close>

text \<open>
  What the spreadsheet codec reads at a path is the parameter \<open>W\<close>: an error when the
  file cannot be read or is no spreadsheet, else the workbook. The world of the command
  is the files it has written and its standard output; \<open>can_write\<close> says which paths can
  be opened for writing. An exception that nothing catches ends the run with exit
  status 1.
\<close>

type_synonym codec = "string \<Rightarrow> error + workbook"

datatype loaded = One sheet_table | Many workbook

definition read_excel :: "codec \<Rightarrow> string \<Rightarrow> string option \<Rightarrow> error + loaded" where
  \<comment> \<open>\<open>pd.read_excel(path, sheet_name=.., dtype=str)\<close>: no name gives every sheet, a name
      gives that sheet or a value error\<close>
  "read_excel W path sheet_name =
     (case W path of
        Inl e \<Rightarrow> Inl e
      | Inr wb \<Rightarrow>
          (case sheet_name of
             None \<Rightarrow> Inr (Many wb)
           | Some n \<Rightarrow>
               (case map_of wb n of None \<Rightarrow> Inl ValueError | Some t \<Rightarrow> Inr (One t))))"

record args =
  excel :: string
  sheet :: "string option"
  out :: "string option"
  na :: string

record world =
  files :: "string \<rightharpoonup> string"
  stdout :: string

definition emit :: "(string \<Rightarrow> bool) \<Rightarrow> string option \<Rightarrow> string \<Rightarrow> world \<Rightarrow> error option \<times> world"
  where
  \<comment> \<open>lines 86-92\<close>
  "emit can_write target html w =
     (case target of
        Some path \<Rightarrow>
          (if path \<noteq> [] then
             (if can_write path
              then (None, w\<lparr>files := (files w)(path \<mapsto> html),
                             stdout := stdout w @ ''Written HTML to: '' @ path @ ''\<newline>''\<rparr>)
              else (Some OSError, w))
           else (None, w\<lparr>stdout := stdout w @ html\<rparr>))
      | None \<Rightarrow> (None, w\<lparr>stdout := stdout w @ html\<rparr>))"

definition all_sheets :: "string option \<Rightarrow> bool" where
  \<comment> \<open>line 74: \<open>args.sheet and args.sheet.lower() == "all"\<close>\<close>
  "all_sheets s = (case s of None \<Rightarrow> False | Some n \<Rightarrow> n \<noteq> [] \<and> lower n = ''all'')"

definition main :: "codec \<Rightarrow> (string \<Rightarrow> bool) \<Rightarrow> args \<Rightarrow> world \<Rightarrow> error option \<times> world" where
  \<comment> \<open>lines 64-92, after the arguments are parsed\<close>
  "main W can_write a w =
     (if all_sheets (sheet a) then
        (case read_excel W (excel a) None of
           Inl e \<Rightarrow> (Some e, w)
         | Inr (One df) \<Rightarrow> (Some AttributeError, w)
         | Inr (Many dfs) \<Rightarrow>
             emit can_write (out a)
               (dfs_to_html (map (\<lambda>(k, df). (k, fillna_table (na a) df)) dfs)) w)
      else
        (case read_excel W (excel a) (sheet a) of
           Inl e \<Rightarrow> (Some e, w)
         | Inr (Many dfs) \<Rightarrow> (Some AttributeError, w)
         | Inr (One df) \<Rightarrow>
             emit can_write (out a) (df_to_html (fillna_table (na a) df) ''table1'') w))"

definition exit_status :: "error option \<times> world \<Rightarrow> nat" where
  "exit_status r = (case fst r of None \<Rightarrow> 0 | Some e \<Rightarrow> 1)"

fun count_occurrences :: "string \<Rightarrow> string \<Rightarrow> nat" where
  \<comment> \<open>the number of places of a text where a pattern starts\<close>
  "count_occurrences p [] = 0"
| "count_occurrences p (c # s) =
     (if take (length p) (c # s) = p then 1 else 0) + count_occurrences p s"

subsection \<open>Workbooks for the examples\<close>

definition one_cell :: sheet_table where
  "one_cell = \<lparr>header = [''A''], body = [[Some ''x'']]\<rparr>"

definition two_sheets :: workbook where
  "two_sheets =
     [(''Jan'', \<lparr>header = [''Item'', ''Cost''], body = [[Some ''a<b'', None]]\<rparr>),
      (''All'', one_cell)]"

definition markup_name :: workbook where
  \<comment> \<open>one sheet, its name a piece of markup\<close>
  "markup_name = [(''<table>'', one_cell)]"

definition plain_book :: workbook where
  "plain_book = [(''Jan'', one_cell)]"

definition shelf :: codec where
  \<comment> \<open>the files the examples read\<close>
  "shelf path =
     (if path = ''book.xlsx'' then Inr two_sheets
      else if path = ''odd.xlsx'' then Inr markup_name
      else if path = ''plain.xlsx'' then Inr plain_book
      else Inl OSError)"

definition blank :: world where
  "blank = \<lparr>files = Map.empty, stdout = []\<rparr>"

section \<open>Numeric coercion: properties\<close>

lemma coerce_amount_cell_numeric:
  "numeric (fillna_cell (Num 0) (to_numeric_cell P col c))"
  by (cases c) (simp_all split: option.split)

lemma coerce_amount_all_num: "list_all numeric (coerce_amount P col)"
  by (simp add: coerce_amount_def fillna_def to_numeric_def list_all_iff
      coerce_amount_cell_numeric)

lemma coerce_amount_fixes_num:
  "list_all numeric col \<Longrightarrow> coerce_amount P col = col"
proof -
  assume a: "list_all numeric col"
  have "fillna_cell (Num 0) (to_numeric_cell P col' c) = c" if "numeric c" for c col'
    using that by (cases c) simp_all
  with a show ?thesis
    by (simp add: coerce_amount_def fillna_def to_numeric_def list_all_iff map_idI)
qed

text \<open>
  C7. Amount coercion is idempotent: coercing an Amount column twice gives exactly the
  column that coercing it once gives, whatever the column holds and whatever the
  library reads from texts and dates.
\<close>

theorem coerce_amount_idempotent:
  "coerce_amount P (coerce_amount P col) = coerce_amount P col"
  by (rule coerce_amount_fixes_num) (rule coerce_amount_all_num)

section \<open>The store: what the pipeline returns and where\<close>

lemma modify_snoc: "modify (length s) g (s @ [x]) = s @ [g x]"
  by (simp add: modify_def)

lemma modify_snoc2_fst: "modify (length s) g (s @ [x, y]) = s @ [g x, y]"
  by (simp add: modify_def list_update_append)

lemma modify_snoc2_snd: "modify (Suc (length s)) g (s @ [x, y]) = s @ [x, g y]"
  by (simp add: modify_def list_update_append nth_append)

lemma nth_snoc2_fst: "(s @ [x, y]) ! length s = x"
  by (simp add: nth_append)

lemma nth_snoc2_snd: "(s @ [x, y]) ! Suc (length s) = y"
  by (simp add: nth_append)

lemma columns_with_category: "''Category'' \<in> set (columns (with_category b f)) \<longleftrightarrow> b \<or> ''Category'' \<in> set (columns f)"
  by (simp add: with_category_def assign_scalar_def assign_values_def)

lemma columns_with_category_other: "n \<noteq> ''Category'' \<Longrightarrow> n \<in> set (columns (with_category b f)) \<longleftrightarrow> n \<in> set (columns f)"
  by (simp add: with_category_def assign_scalar_def assign_values_def)

lemma manipulate_with_eq:
  assumes "a < length s"
  shows "manipulate_with L P D a s =
    (map_sum id (\<lambda>(t, pv). (length s, Suc (length s), t, pv))
       (summaries L (''YearMonth'' \<in> set (columns (cleaned P D (s ! a)))) (positive P D (s ! a))),
     s @ [cleaned P D (s ! a), positive P D (s ! a)])"
proof -
  define f1 where "f1 = dropna_all (s ! a)"
  define f3 where "f3 = with_amount P f1"
  define f4 where "f4 = with_year_month D f3"
  define f5 where "f5 = prepared P D (s ! a)"
  define fp where "fp = select_mask (positive_mask (column f5 ''Amount'')) f5"
  define b where "b = (''Category'' \<notin> set (columns f5))"
  have f5: "f5 = assign_values ''VAT_20'' (vat_20 (column f4 ''Amount'')) f4"
    by (simp add: f5_def prepared_def f4_def f3_def f1_def Let_def)
  have c: "cleaned P D (s ! a) = with_category b f5"
    by (simp add: cleaned_def f5_def b_def Let_def)
  have p: "positive P D (s ! a) = with_category b fp"
    by (simp add: positive_def fp_def f5_def b_def Let_def)
  have ym: "''YearMonth'' \<in> set (columns (with_category b f5)) \<longleftrightarrow> ''YearMonth'' \<in> set (columns f5)"
    by (simp add: columns_with_category_other)
  have s3: "modify (length s) (\<lambda>f. assign_values ''Amount'' (coerce_amount P (column f ''Amount'')) f)
             (if ''Amount'' \<notin> set (columns f1)
               then modify (length s) (assign_scalar ''Amount'' (Num 1)) (s @ [f1]) else s @ [f1])
           = s @ [f3]"
    by (simp add: f3_def with_amount_def modify_snoc Let_def)
  have s4: "(if ''Date'' \<in> set (columns f3)
               then modify (length s)
                      (\<lambda>f. assign_values ''YearMonth'' (map period_str (column f ''Date'')) f)
                      (modify (length s)
                         (\<lambda>f. assign_values ''Date'' (to_datetime D (column f ''Date'')) f) (s @ [f3]))
               else s @ [f3]) = s @ [f4]"
    by (simp add: f4_def with_year_month_def modify_snoc Let_def)
  have s5: "modify (length s) (\<lambda>f. assign_values ''VAT_20'' (vat_20 (column f ''Amount'')) f) (s @ [f4]) = s @ [f5]"
    by (simp add: f5 modify_snoc)
  have s7: "(if ''Category'' \<notin> set (columns ((s @ [f5, fp]) ! length s))
               then modify (Suc (length s)) (assign_scalar ''Category'' (Str ''All''))
                      (modify (length s) (assign_scalar ''Category'' (Str ''All'')) (s @ [f5, fp]))
               else s @ [f5, fp]) = s @ [with_category b f5, with_category b fp]"
    by (simp add: b_def with_category_def modify_snoc2_fst modify_snoc2_snd nth_snoc2_fst)
  have "manipulate_with L P D a s =
     (let s7 = s @ [with_category b f5, with_category b fp] in
      if ''YearMonth'' \<in> set (columns (s7 ! length s)) then
          (case sort_values L [''Category'', ''YearMonth'']
                  (groupby_sum L [''Category'', ''YearMonth''] ''Amount'' (s7 ! Suc (length s))) of
             Inl e \<Rightarrow> (Inl e, s7)
           | Inr totals \<Rightarrow>
               (case pivot_table L ''Category'' ''YearMonth'' ''Amount'' 0 (s7 ! Suc (length s)) of
                  Inl e \<Rightarrow> (Inl e, s7)
                | Inr table \<Rightarrow>
                    (case sort_index L table of
                       Inl e \<Rightarrow> (Inl e, s7)
                     | Inr pv \<Rightarrow> (Inr (length s, Suc (length s), totals, Some pv), s7))))
        else
          (case sort_values L [''Category'']
                  (groupby_sum L [''Category''] ''Amount'' (s7 ! Suc (length s))) of
             Inl e \<Rightarrow> (Inl e, s7)
           | Inr totals \<Rightarrow> (Inr (length s, Suc (length s), totals, None), s7)))"
    unfolding manipulate_with_def alloc_def Let_def prod.case
    using assms
    apply (simp only: nth_append_length f1_def[symmetric] s3 s4 s5)
    apply (simp only: append_assoc append_Cons append_Nil fp_def[symmetric] length_append list.size add_Suc_right add_0_right s7)
    apply (simp only: nth_snoc2_fst nth_snoc2_snd)
    done
  then show ?thesis
    by (simp add: c p Let_def summaries_def nth_snoc2_fst nth_snoc2_snd split: sum.splits)
qed

lemma manipulate_eq:
  assumes "a < length s"
  shows "manipulate P D a s =
    (map_sum id (\<lambda>(t, pv). (length s, Suc (length s), t, pv))
       (summaries exact_library (''YearMonth'' \<in> set (columns (cleaned P D (s ! a))))
          (positive P D (s ! a))),
     s @ [cleaned P D (s ! a), positive P D (s ! a)])"
  using assms by (simp add: manipulate_def manipulate_with_eq)

section \<open>The pipeline row by row\<close>

lemma assign_values_map: "assign_values n (map g (rows f)) f = assign n g f"
  by (simp add: assign_values_def assign_def zip_map2 zip_same_conv_map comp_def)

lemma assign_scalar_assign: "assign_scalar n v f = assign n (\<lambda>_. v) f"
proof -
  have "replicate (length (rows f)) v = map (\<lambda>_. v) (rows f)"
    by (simp add: map_replicate_const)
  then show ?thesis
    by (simp add: assign_scalar_def assign_values_map)
qed

lemma coerce_amount_map:
  "coerce_amount P col = map (\<lambda>c. fillna_cell (Num 0) (to_numeric_cell P col c)) col"
  by (simp add: coerce_amount_def fillna_def to_numeric_def)

lemma select_mask_positive:
  "select_mask (positive_mask (column f n)) f = f\<lparr>rows := filter (\<lambda>r. 0 < num_of (r n)) (rows f)\<rparr>"
proof -
  have "map fst (filter snd (zip xs (map p xs))) = filter p xs" for xs :: "row list" and p
    by (induction xs) simp_all
  then show ?thesis
    by (simp add: select_mask_def positive_mask_def column_def comp_def)
qed

lemma rows_assign: "rows (assign n g f) = map (\<lambda>r. r(n := g r)) (rows f)"
  by (simp add: assign_def)

lemma columns_assign: "set (columns (assign n g f)) = insert n (set (columns f))"
  by (auto simp: assign_def)

lemma assign_column_map:
  "assign_values n (map h (column f k)) f = assign n (\<lambda>r. h (r k)) f"
  using assign_values_map [of n "\<lambda>r. h (r k)" f] by (simp add: column_def comp_def)

lemma assign_twice: "assign n (\<lambda>r. v) (assign n (\<lambda>r. v) f) = assign n (\<lambda>r. v) f"
  by (simp add: assign_def comp_def)

lemma with_amount_assign:
  "with_amount P f =
     assign ''Amount''
       (\<lambda>r. if ''Amount'' \<in> set (columns f)
            then fillna_cell (Num 0) (to_numeric_cell P (column f ''Amount'') (r ''Amount''))
            else Num 1) f"
proof (cases "''Amount'' \<in> set (columns f)")
  case True
  then show ?thesis
    by (simp add: with_amount_def coerce_amount_map assign_column_map)
next
  case False
  let ?g = "assign ''Amount'' (\<lambda>r. Num 1) f"
  have "list_all numeric (column ?g ''Amount'')"
    by (simp add: column_def rows_assign list_all_iff)
  then have "coerce_amount P (column ?g ''Amount'') = map (\<lambda>c. Num 1) (column ?g ''Amount'')"
    by (simp add: coerce_amount_fixes_num) (simp add: column_def rows_assign comp_def)
  then show ?thesis
    using False
    by (simp add: with_amount_def assign_scalar_assign assign_column_map assign_twice)
qed

lemma with_year_month_assign:
  "with_year_month D f =
     (if ''Date'' \<in> set (columns f)
      then assign ''YearMonth'' (\<lambda>r. period_str (r ''Date''))
             (assign ''Date'' (\<lambda>r. to_datetime_cell D (column f ''Date'') (r ''Date'')) f)
      else f)"
  by (simp add: with_year_month_def to_datetime_def assign_column_map Let_def)

lemma prepared_assign:
  "prepared P D f =
     assign ''VAT_20'' (\<lambda>r. Num (round2 (num_of (r ''Amount'') * (1 / 5))))
       (with_year_month D (with_amount P (dropna_all f)))"
  by (simp add: prepared_def vat_20_def assign_column_map Let_def)

lemma with_category_assign:
  "with_category b f = (if b then assign ''Category'' (\<lambda>r. Str ''All'') f else f)"
  by (simp add: with_category_def assign_scalar_assign)

lemma positive_filter:
  "rows (positive P D f) = filter (\<lambda>r. 0 < num_of (r ''Amount'')) (rows (cleaned P D f))"
  by (simp add: positive_def cleaned_def Let_def select_mask_positive with_category_assign
      rows_assign filter_map comp_def)

lemma column_assign:
  "column (assign n g f) k = (if k = n then map g (rows f) else column f k)"
  by (simp add: column_def rows_assign comp_def)

lemma with_amount_column:
  "list_all numeric (column (with_amount P f) ''Amount'')"
  by (simp add: with_amount_assign column_assign list_all_iff coerce_amount_cell_numeric)

lemma with_year_month_column:
  "k \<noteq> ''Date'' \<Longrightarrow> k \<noteq> ''YearMonth'' \<Longrightarrow>
     column (with_year_month D f) k = column f k"
  by (simp add: with_year_month_assign column_assign)

lemma prepared_column:
  "k \<noteq> ''Date'' \<Longrightarrow> k \<noteq> ''YearMonth'' \<Longrightarrow> k \<noteq> ''VAT_20'' \<Longrightarrow>
     column (prepared P D f) k = column (with_amount P (dropna_all f)) k"
  by (simp add: prepared_assign column_assign with_year_month_column)

lemma in_rows_column: "r \<in> set (rows f) \<Longrightarrow> r k \<in> set (column f k)"
  by (simp add: column_def)

lemma prepared_amount_numeric:
  "r \<in> set (rows (prepared P D f)) \<Longrightarrow> numeric (r ''Amount'')"
  using with_amount_column [of P "dropna_all f"] in_rows_column [of r "prepared P D f" "''Amount''"]
  by (simp add: prepared_column list_all_iff)

lemma prepared_vat:
  "r \<in> set (rows (prepared P D f)) \<Longrightarrow>
     r ''VAT_20'' = Num (round2 (num_of (r ''Amount'') * (1 / 5)))"
  by (auto simp: prepared_assign rows_assign)

lemma cleaned_vat:
  "r \<in> set (rows (cleaned P D f)) \<Longrightarrow>
     r ''VAT_20'' = Num (round2 (num_of (r ''Amount'') * (1 / 5)))"
  by (auto simp: cleaned_def Let_def with_category_assign rows_assign prepared_vat split: if_splits)

lemma cleaned_amount_numeric:
  "r \<in> set (rows (cleaned P D f)) \<Longrightarrow> numeric (r ''Amount'')"
  by (auto simp: cleaned_def Let_def with_category_assign rows_assign prepared_amount_numeric split: if_splits)


section \<open>Grouped sums and pivots: what their entries are\<close>

lemma cell_key_inj: "cell_key a = cell_key b \<Longrightarrow> a = b"
  by (cases a; cases b) simp_all

lemma key_of_exact: "key_of exact_library c = cell_key c"
  by (simp add: key_of_def exact_library_def split: prod.split)

lemma set_group_keys:
  "set (group_keys L keys f) = (\<lambda>r. map r keys) ` {r \<in> set (rows f). keys_present keys r}"
  by (auto simp: group_keys_def)

lemma key_row_map: "k \<in> set keys \<Longrightarrow> key_row keys (map r keys) k = r k"
  by (simp add: key_row_def map_of_zip_map)

lemma groupby_sum_entry:
  assumes "e \<in> set (rows (groupby_sum L keys val f))" and "val \<notin> set keys"
  shows "e val =
      Num (lib_sum L (map (\<lambda>r. num_of (r val)) (filter (\<lambda>r. map r keys = map e keys) (rows f))))"
    and "\<exists>r\<in>set (rows f). keys_present keys r \<and> map r keys = map e keys"
proof -
  from assms(1) obtain ks where ks: "ks \<in> set (group_keys L keys f)"
    and e: "e = (key_row keys ks)(val := Num (group_total L keys val f ks))"
    by (auto simp: groupby_sum_def)
  from ks obtain r where r: "r \<in> set (rows f)" "keys_present keys r" "ks = map r keys"
    by (auto simp: set_group_keys)
  have m: "map e keys = ks"
    using assms(2) by (auto simp: e r(3) key_row_map)
  show "e val =
      Num (lib_sum L (map (\<lambda>r. num_of (r val)) (filter (\<lambda>r. map r keys = map e keys) (rows f))))"
    by (simp add: m) (simp add: e group_total_def)
  show "\<exists>r\<in>set (rows f). keys_present keys r \<and> map r keys = map e keys"
    using r m by auto
qed

lemma groupby_sum_covers:
  assumes "r \<in> set (rows f)" and "keys_present keys r" and "val \<notin> set keys"
  shows "\<exists>e\<in>set (rows (groupby_sum L keys val f)). map e keys = map r keys"
proof -
  have "map r keys \<in> set (group_keys L keys f)"
    using assms(1,2) by (auto simp: set_group_keys)
  moreover have "map ((key_row keys (map r keys))(val := x)) keys = map r keys" for x
    using assms(3) by (auto simp: key_row_map)
  ultimately show ?thesis
    by (force simp: groupby_sum_def)
qed

lemma sort_values_Inr:
  assumes "sort_values L keys f = Inr t"
  shows "set (rows t) = set (rows f)"
    and "sorted (map (\<lambda>r. map (\<lambda>k. key_of L (r k)) keys) (rows t))"
    and "distinct (rows t) = distinct (rows f)"
  using assms by (auto simp: sort_values_def split: if_splits)







section \<open>Results of a successful run\<close>

lemma manipulate_with_Inr:
  assumes "a < length s" and "manipulate_with L P D a s = (Inr (c, p, t, pv), s')"
  shows "c = length s" and "p = Suc (length s)"
    and "s' = s @ [cleaned P D (s ! a), positive P D (s ! a)]"
    and "s' ! c = cleaned P D (s ! a)" and "s' ! p = positive P D (s ! a)"
    and "summaries L (''YearMonth'' \<in> set (columns (cleaned P D (s ! a)))) (positive P D (s ! a))
           = Inr (t, pv)"
proof -
  let ?r = "summaries L (''YearMonth'' \<in> set (columns (cleaned P D (s ! a))))
              (positive P D (s ! a))"
  from assms have r: "map_sum id (\<lambda>(t, pv). (length s, Suc (length s), t, pv)) ?r = Inr (c, p, t, pv)"
    and s': "s' = s @ [cleaned P D (s ! a), positive P D (s ! a)]"
    by (simp_all add: manipulate_with_eq)
  from r show c: "c = length s" and p: "p = Suc (length s)" and "?r = Inr (t, pv)"
    by (cases ?r; auto)+
  show "s' = s @ [cleaned P D (s ! a), positive P D (s ! a)]" by (rule s')
  show "s' ! c = cleaned P D (s ! a)" by (simp add: s' c)
  show "s' ! p = positive P D (s ! a)" by (simp add: s' p nth_append)
qed

lemmas manipulate_Inr = manipulate_with_Inr [where L = exact_library, folded manipulate_def]

lemma summaries_month:
  assumes "summaries L True pos = Inr (t, pv)"
  shows "\<exists>table q. pv = Some q \<and>
           pivot_table L ''Category'' ''YearMonth'' ''Amount'' 0 pos = Inr table \<and>
           sort_index L table = Inr q"
    and "sort_values L [''Category'', ''YearMonth'']
           (groupby_sum L [''Category'', ''YearMonth''] ''Amount'' pos) = Inr t"
  using assms by (auto simp: summaries_def split: sum.splits)

lemma summaries_plain:
  assumes "summaries L False pos = Inr (t, pv)"
  shows "pv = None"
    and "sort_values L [''Category''] (groupby_sum L [''Category''] ''Amount'' pos) = Inr t"
  using assms by (auto simp: summaries_def split: sum.splits)

lemma columns_dropna_all: "columns (dropna_all f) = columns f"
  by (simp add: dropna_all_def)

lemma columns_prepared:
  "set (columns (prepared P D f)) =
     set (columns f) \<union> {''Amount'', ''VAT_20''} \<union>
     (if ''Date'' \<in> set (columns f) then {''YearMonth''} else {})"
  by (auto simp: prepared_assign with_year_month_assign with_amount_assign columns_assign
      columns_dropna_all)

lemma columns_cleaned:
  "set (columns (cleaned P D f)) =
     set (columns f) \<union> {''Amount'', ''VAT_20'', ''Category''} \<union>
     (if ''Date'' \<in> set (columns f) then {''YearMonth''} else {})"
  by (auto simp: cleaned_def Let_def with_category_assign columns_assign columns_prepared)

lemma year_month_cleaned:
  "''YearMonth'' \<in> set (columns (cleaned P D f)) \<longleftrightarrow>
     ''Date'' \<in> set (columns f) \<or> ''YearMonth'' \<in> set (columns f)"
  by (auto simp: columns_cleaned)


lemma round2_fifth: "round2 (1 * (1 / 5)) = 1 / 5"
  by (simp add: round2_def round_half_even_def)

lemma length_rows_assign: "length (rows (assign n g f)) = length (rows f)"
  by (simp add: rows_assign)

lemma length_rows_cleaned:
  "length (rows (cleaned P D f)) =
     length (filter (\<lambda>r. \<not> list_all (\<lambda>k. r k = NA) (columns f)) (rows f))"
proof -
  have "length (rows (cleaned P D f)) = length (rows (dropna_all f))"
    by (simp add: cleaned_def Let_def with_category_assign prepared_assign
        with_year_month_assign with_amount_assign length_rows_assign)
  then show ?thesis by (simp add: dropna_all_def)
qed

lemma cleaned_column:
  "k \<noteq> ''Date'' \<Longrightarrow> k \<noteq> ''YearMonth'' \<Longrightarrow> k \<noteq> ''VAT_20'' \<Longrightarrow> k \<noteq> ''Category'' \<Longrightarrow>
     column (cleaned P D f) k = column (with_amount P (dropna_all f)) k"
  by (simp add: cleaned_def Let_def with_category_assign column_assign prepared_column)

lemma cleaned_amount_synthesized:
  assumes "''Amount'' \<notin> set (columns f)" and "r \<in> set (rows (cleaned P D f))"
  shows "r ''Amount'' = Num 1"
proof -
  have "column (cleaned P D f) ''Amount'' = map (\<lambda>r. Num 1) (rows (dropna_all f))"
    using assms(1)
    by (simp add: cleaned_column with_amount_assign column_assign columns_dropna_all)
  with in_rows_column [OF assms(2), of "''Amount''"] show ?thesis by auto
qed


section \<open>The example tables, evaluated\<close>

lemmas stage_simps = positive_filter cleaned_def prepared_assign with_year_month_assign
  with_amount_assign with_category_assign rows_assign assign_def dropna_all_def column_def
  Let_def round2_def round_half_even_def
lemmas summary_simps = summaries_def sort_values_def sort_index_def pivot_table_def
  pivot_cell_def groupby_sum_def group_keys_def group_total_def key_row_def keys_present_def
  comparable_def key_of_def exact_library_def sorts_one_kind_def

lemma ledger_cleaned:
  "map (\<lambda>r. map r [''Category'', ''Amount'', ''VAT_20'']) (rows (cleaned no_number no_date ledger)) =
     [[Str ''Food'', Num 12, Num (12 / 5)], [Str ''Food'', Num (- 7 / 2), Num (- 7 / 10)],
      [Str ''Rent'', Num 0, Num 0], [Str ''Books'', Num 8, Num (8 / 5)],
      [Str ''Food'', Num 3, Num (3 / 5)]]"
  by (simp add: stage_simps ledger_def no_number_def)

lemma ledger_positive:
  "map (\<lambda>r. map r [''Category'', ''Amount'']) (rows (positive no_number no_date ledger)) =
     [[Str ''Food'', Num 12], [Str ''Books'', Num 8], [Str ''Food'', Num 3]]"
  by (simp add: stage_simps ledger_def no_number_def)

lemma ledger_summaries:
  "\<exists>t. summaries exact_library False (positive no_number no_date ledger) = Inr (t, None) \<and>
       map (\<lambda>e. map e [''Category'', ''Amount'']) (rows t) =
         [[Str ''Books'', Num 8], [Str ''Food'', Num 15]]"
  by (simp add: summary_simps stage_simps ledger_def no_number_def)

lemma ledger_columns: "''YearMonth'' \<notin> set (columns (cleaned no_number no_date ledger))"
  by (simp add: year_month_cleaned ledger_def)

lemma ledger_run:
  obtains t where
    "manipulate no_number no_date 0 [ledger] =
       (Inr (1, 2, t, None),
        [ledger, cleaned no_number no_date ledger, positive no_number no_date ledger])"
    and "map (\<lambda>e. map e [''Category'', ''Amount'']) (rows t) =
         [[Str ''Books'', Num 8], [Str ''Food'', Num 15]]"
  using ledger_summaries by (auto simp: manipulate_eq ledger_columns)

lemma sample_cleaned:
  "map (\<lambda>r. map r [''Category'', ''Amount'', ''YearMonth'', ''VAT_20'']) (rows (cleaned P D sample)) =
     [[Str ''Food'', Num 50, Str ''2025-01'', Num 10],
      [Str ''Transport'', Num 20, Str ''2025-01'', Num 4],
      [Str ''Food'', Num 30, Str ''2025-02'', Num 6],
      [Str ''Rent'', Num 500, Str ''2025-02'', Num 100],
      [Str ''Transport'', Num 25, Str ''2025-03'', Num 5],
      [Str ''Food'', Num 45, Str ''2025-03'', Num 9]]"
  by (simp add: stage_simps sample_def sample_rows_def show_nat.simps zfill_def)

lemma sample_summaries:
  "\<exists>t. summaries exact_library True (positive P D sample) =
         Inr (t, Some \<lparr>pv_columns = [Str ''2025-01'', Str ''2025-02'', Str ''2025-03''],
                       pv_rows = [(Str ''Food'', [50, 30, 45]), (Str ''Rent'', [0, 500, 0]),
                                  (Str ''Transport'', [20, 0, 25])]\<rparr>) \<and>
       columns t = [''Category'', ''YearMonth'', ''Amount''] \<and>
       map (\<lambda>e. map e [''Category'', ''YearMonth'', ''Amount'']) (rows t) =
         [[Str ''Food'', Str ''2025-01'', Num 50], [Str ''Food'', Str ''2025-02'', Num 30],
          [Str ''Food'', Str ''2025-03'', Num 45], [Str ''Rent'', Str ''2025-02'', Num 500],
          [Str ''Transport'', Str ''2025-01'', Num 20],
          [Str ''Transport'', Str ''2025-03'', Num 25]]"
  by (simp add: summary_simps stage_simps sample_def sample_rows_def show_nat.simps zfill_def)

lemma sample_columns: "''YearMonth'' \<in> set (columns (cleaned P D sample))"
  by (simp add: year_month_cleaned sample_def)

lemma sample_positive:
  "map (\<lambda>r. map r [''Category'', ''YearMonth'', ''Amount'']) (rows (positive P D sample)) =
     [[Str ''Food'', Str ''2025-01'', Num 50], [Str ''Transport'', Str ''2025-01'', Num 20],
      [Str ''Food'', Str ''2025-02'', Num 30], [Str ''Rent'', Str ''2025-02'', Num 500],
      [Str ''Transport'', Str ''2025-03'', Num 25], [Str ''Food'', Str ''2025-03'', Num 45]]"
  by (simp add: stage_simps sample_def sample_rows_def show_nat.simps zfill_def)

lemma sample_run:
  obtains t where
    "manipulate P D 0 [sample] =
       (Inr (1, 2, t,
             Some \<lparr>pv_columns = [Str ''2025-01'', Str ''2025-02'', Str ''2025-03''],
                   pv_rows = [(Str ''Food'', [50, 30, 45]), (Str ''Rent'', [0, 500, 0]),
                              (Str ''Transport'', [20, 0, 25])]\<rparr>),
        [sample, cleaned P D sample, positive P D sample])"
    and "columns t = [''Category'', ''YearMonth'', ''Amount'']"
    and "map (\<lambda>e. map e [''Category'', ''YearMonth'', ''Amount'']) (rows t) =
         [[Str ''Food'', Str ''2025-01'', Num 50], [Str ''Food'', Str ''2025-02'', Num 30],
          [Str ''Food'', Str ''2025-03'', Num 45], [Str ''Rent'', Str ''2025-02'', Num 500],
          [Str ''Transport'', Str ''2025-01'', Num 20],
          [Str ''Transport'', Str ''2025-03'', Num 25]]"
  using sample_summaries [of P D] by (auto simp: manipulate_eq sample_columns)

lemma notes_only_cleaned:
  "map (\<lambda>r. map r [''Category'', ''Notes'', ''Amount'', ''VAT_20''])
     (rows (cleaned no_number no_date notes_only)) =
     [[Str ''Food'', Str ''Lunch'', Num 1, Num (1 / 5)], [Str ''Rent'', NA, Num 1, Num (1 / 5)]]"
  by (simp add: stage_simps notes_only_def no_number_def)

lemma notes_only_summaries:
  "\<exists>t. summaries exact_library False (positive no_number no_date notes_only) = Inr (t, None) \<and>
       map (\<lambda>e. map e [''Category'', ''Amount'']) (rows t) =
         [[Str ''Food'', Num 1], [Str ''Rent'', Num 1]]"
  by (simp add: summary_simps stage_simps notes_only_def no_number_def)

lemma notes_only_run:
  obtains t where
    "manipulate no_number no_date 0 [notes_only] =
       (Inr (1, 2, t, None),
        [notes_only, cleaned no_number no_date notes_only,
         positive no_number no_date notes_only])"
  using notes_only_summaries by (auto simp: manipulate_eq year_month_cleaned notes_only_def)



lemmas int64_simps = summaries_def sort_values_def sort_index_def pivot_table_def
  pivot_cell_def groupby_sum_def group_keys_def group_total_def key_row_def keys_present_def
  comparable_def key_of_def int64_library_def sorts_one_kind_def wrap64_def

lemma big_ledger_positive:
  "map (\<lambda>r. map r [''Category'', ''Amount'']) (rows (positive no_number no_date big_ledger)) =
     [[Str ''Food'', Num 9223372036854775807], [Str ''Food'', Num 1]]"
  by (simp add: stage_simps big_ledger_def no_number_def)

lemma big_ledger_summaries:
  "\<exists>t. summaries int64_library False (positive no_number no_date big_ledger) = Inr (t, None) \<and>
       map (\<lambda>e. map e [''Category'', ''Amount'']) (rows t) =
         [[Str ''Food'', Num (- 9223372036854775808)]]"
  by (simp add: int64_simps stage_simps big_ledger_def no_number_def)




lemma big_ledger_run:
  obtains t where
    "manipulate_with int64_library no_number no_date 0 [big_ledger] =
       (Inr (1, 2, t, None),
        [big_ledger, cleaned no_number no_date big_ledger,
         positive no_number no_date big_ledger])"
    and "map (\<lambda>e. map e [''Category'', ''Amount'']) (rows t) =
         [[Str ''Food'', Num (- 9223372036854775808)]]"
  using big_ledger_summaries
  by (auto simp: manipulate_with_eq year_month_cleaned big_ledger_def)



section \<open>The claims about the transformation pipeline\<close>

text \<open>
  C1, as amended. For the six sample rows the run succeeds. The Date column gives a
  year-month column, so the totals are grouped by category and month: six rows,
  Food 50, 30 and 45 in the three months, Rent 500 in February, Transport 20 in January
  and 25 in March; summed over the months they give Food 125, Transport 45 and
  Rent 500. The pivot has the three months as columns and the rows Food 50, 30, 45,
  Rent 0, 500, 0 and Transport 20, 0, 25: zero where a category has no row in a month.
\<close>

theorem sample_totals_and_pivot:
  "(case manipulate P D 0 [sample] of
      (Inl e, s') \<Rightarrow> False
    | (Inr (c, p, t, pv), s') \<Rightarrow>
        columns t = [''Category'', ''YearMonth'', ''Amount''] \<and>
        map (\<lambda>e. map e [''Category'', ''YearMonth'', ''Amount'']) (rows t) =
          [[Str ''Food'', Str ''2025-01'', Num 50], [Str ''Food'', Str ''2025-02'', Num 30],
           [Str ''Food'', Str ''2025-03'', Num 45], [Str ''Rent'', Str ''2025-02'', Num 500],
           [Str ''Transport'', Str ''2025-01'', Num 20],
           [Str ''Transport'', Str ''2025-03'', Num 25]] \<and>
        map (\<lambda>C. \<Sum>e\<leftarrow>filter (\<lambda>e. e ''Category'' = Str C) (rows t). num_of (e ''Amount''))
          [''Food'', ''Transport'', ''Rent''] = [125, 45, 500] \<and>
        pv = Some \<lparr>pv_columns = [Str ''2025-01'', Str ''2025-02'', Str ''2025-03''],
                   pv_rows = [(Str ''Food'', [50, 30, 45]), (Str ''Rent'', [0, 500, 0]),
                              (Str ''Transport'', [20, 0, 25])]\<rparr>)"
proof -
  obtain t where run: "manipulate P D 0 [sample] =
       (Inr (1, 2, t,
             Some \<lparr>pv_columns = [Str ''2025-01'', Str ''2025-02'', Str ''2025-03''],
                   pv_rows = [(Str ''Food'', [50, 30, 45]), (Str ''Rent'', [0, 500, 0]),
                              (Str ''Transport'', [20, 0, 25])]\<rparr>),
        [sample, cleaned P D sample, positive P D sample])"
    and cols: "columns t = [''Category'', ''YearMonth'', ''Amount'']"
    and rws: "map (\<lambda>e. map e [''Category'', ''YearMonth'', ''Amount'']) (rows t) =
         [[Str ''Food'', Str ''2025-01'', Num 50], [Str ''Food'', Str ''2025-02'', Num 30],
          [Str ''Food'', Str ''2025-03'', Num 45], [Str ''Rent'', Str ''2025-02'', Num 500],
          [Str ''Transport'', Str ''2025-01'', Num 20],
          [Str ''Transport'', Str ''2025-03'', Num 25]]"
    by (rule sample_run)
  from rws obtain e1 e2 e3 e4 e5 e6 where es: "rows t = [e1, e2, e3, e4, e5, e6]"
    by (auto simp: map_eq_Cons_conv)
  from rws have sums:
    "map (\<lambda>C. \<Sum>e\<leftarrow>filter (\<lambda>e. e ''Category'' = Str C) (rows t). num_of (e ''Amount''))
          [''Food'', ''Transport'', ''Rent''] = [125, 45, 500]"
    by (simp add: es)
  from cols rws sums show ?thesis
    by (simp add: run)
qed

text \<open>
  C1, as stated, fails: the totals of the sample have no row Food = 125 (nor
  Transport = 45); the Food rows are 50, 30 and 45, one for each month.
\<close>

theorem sample_totals_counterexample:
  "(case manipulate no_number no_date 0 [sample] of
      (Inl e, s') \<Rightarrow> False
    | (Inr (c, p, t, pv), s') \<Rightarrow>
        (Str ''Food'', Num 125) \<notin> set (map (\<lambda>e. (e ''Category'', e ''Amount'')) (rows t)) \<and>
        (Str ''Transport'', Num 45) \<notin> set (map (\<lambda>e. (e ''Category'', e ''Amount'')) (rows t)))"
proof -
  obtain t where run: "manipulate no_number no_date 0 [sample] =
       (Inr (1, 2, t,
             Some \<lparr>pv_columns = [Str ''2025-01'', Str ''2025-02'', Str ''2025-03''],
                   pv_rows = [(Str ''Food'', [50, 30, 45]), (Str ''Rent'', [0, 500, 0]),
                              (Str ''Transport'', [20, 0, 25])]\<rparr>),
        [sample, cleaned no_number no_date sample, positive no_number no_date sample])"
    and rws: "map (\<lambda>e. map e [''Category'', ''YearMonth'', ''Amount'']) (rows t) =
         [[Str ''Food'', Str ''2025-01'', Num 50], [Str ''Food'', Str ''2025-02'', Num 30],
          [Str ''Food'', Str ''2025-03'', Num 45], [Str ''Rent'', Str ''2025-02'', Num 500],
          [Str ''Transport'', Str ''2025-01'', Num 20],
          [Str ''Transport'', Str ''2025-03'', Num 25]]"
    by (rule sample_run)
  from rws obtain e1 e2 e3 e4 e5 e6 where es: "rows t = [e1, e2, e3, e4, e5, e6]"
    by (auto simp: map_eq_Cons_conv)
  from rws show ?thesis
    by (simp add: run es)
qed

text \<open>
  C2, as amended. In every successful run, whatever the library's arithmetic, the
  positive-only table holds exactly the rows of the cleaned table whose coerced Amount
  is above zero, in their order. Each row of the totals carries the library's sum of
  Amount over exactly the positive-only rows that share its category and, when the
  cleaned table has a YearMonth column, its year-month; that is the exact sum as long
  as the library's arithmetic is exact on the group. The rows of the totals are in
  ascending order of category, then of year-month.
\<close>

theorem totals_entries_sorted:
  assumes "a < length s" and "manipulate_with L P D a s = (Inr (c, p, t, pv), s')"
  shows "rows (s' ! p) = filter (\<lambda>r. 0 < num_of (r ''Amount'')) (rows (s' ! c)) \<and>
    (if ''YearMonth'' \<in> set (columns (s' ! c))
     then (\<forall>e\<in>set (rows t).
             e ''Amount'' =
               Num (lib_sum L (map (\<lambda>r. num_of (r ''Amount''))
                      (filter (\<lambda>r. r ''Category'' = e ''Category'' \<and>
                                   r ''YearMonth'' = e ''YearMonth'') (rows (s' ! p)))))) \<and>
          sorted (map (\<lambda>e. [key_of L (e ''Category''), key_of L (e ''YearMonth'')]) (rows t))
     else (\<forall>e\<in>set (rows t).
             e ''Amount'' =
               Num (lib_sum L (map (\<lambda>r. num_of (r ''Amount''))
                      (filter (\<lambda>r. r ''Category'' = e ''Category'') (rows (s' ! p)))))) \<and>
          sorted (map (\<lambda>e. [key_of L (e ''Category'')]) (rows t)))"
proof -
  note m = manipulate_with_Inr [OF assms]
  have pos: "rows (s' ! p) = filter (\<lambda>r. 0 < num_of (r ''Amount'')) (rows (s' ! c))"
    by (simp add: m(4,5) positive_filter)
  show ?thesis
  proof (cases "''YearMonth'' \<in> set (columns (s' ! c))")
    case True
    with m have sv: "sort_values L [''Category'', ''YearMonth'']
           (groupby_sum L [''Category'', ''YearMonth''] ''Amount'' (s' ! p)) = Inr t"
      by (simp add: summaries_month(2))
    have "e ''Amount'' =
               Num (lib_sum L (map (\<lambda>r. num_of (r ''Amount''))
                      (filter (\<lambda>r. r ''Category'' = e ''Category'' \<and>
                                   r ''YearMonth'' = e ''YearMonth'') (rows (s' ! p)))))"
      if "e \<in> set (rows t)" for e
      using groupby_sum_entry(1) [of e L "[''Category'', ''YearMonth'']" "''Amount''" "s' ! p"]
        that sort_values_Inr(1) [OF sv] by simp
    moreover have
      "sorted (map (\<lambda>e. [key_of L (e ''Category''), key_of L (e ''YearMonth'')]) (rows t))"
      using sort_values_Inr(2) [OF sv] by simp
    ultimately show ?thesis using True pos by simp
  next
    case False
    with m have sv: "sort_values L [''Category'']
           (groupby_sum L [''Category''] ''Amount'' (s' ! p)) = Inr t"
      by (simp add: summaries_plain(2))
    have "e ''Amount'' =
               Num (lib_sum L (map (\<lambda>r. num_of (r ''Amount''))
                      (filter (\<lambda>r. r ''Category'' = e ''Category'') (rows (s' ! p)))))"
      if "e \<in> set (rows t)" for e
      using groupby_sum_entry(1) [of e L "[''Category'']" "''Amount''" "s' ! p"]
        that sort_values_Inr(1) [OF sv] by simp
    moreover have "sorted (map (\<lambda>e. [key_of L (e ''Category'')]) (rows t))"
      using sort_values_Inr(2) [OF sv] by simp
    ultimately show ?thesis using False pos by simp
  qed
qed

theorem totals_entries_sorted_witness:
  "(case manipulate_with exact_library no_number no_date 0 [ledger] of
      (Inl e, s') \<Rightarrow> False
    | (Inr (c, p, t, pv), s') \<Rightarrow>
        map (\<lambda>r. map r [''Category'', ''Amount'']) (rows (s' ! p)) =
          [[Str ''Food'', Num 12], [Str ''Books'', Num 8], [Str ''Food'', Num 3]] \<and>
        map (\<lambda>e. map e [''Category'', ''Amount'']) (rows t) =
          [[Str ''Books'', Num 8], [Str ''Food'', Num 15]] \<and>
        rows (s' ! p) = filter (\<lambda>r. 0 < num_of (r ''Amount'')) (rows (s' ! c)) \<and>
        list_all (\<lambda>e. e ''Amount'' =
               Num (sum_list (map (\<lambda>r. num_of (r ''Amount''))
                      (filter (\<lambda>r. r ''Category'' = e ''Category'') (rows (s' ! p))))))
          (rows t) \<and>
        sorted (map (\<lambda>e. [cell_key (e ''Category'')]) (rows t)))"
proof -
  obtain t where run: "manipulate no_number no_date 0 [ledger] =
       (Inr (1, 2, t, None),
        [ledger, cleaned no_number no_date ledger, positive no_number no_date ledger])"
    and rws: "map (\<lambda>e. map e [''Category'', ''Amount'']) (rows t) =
         [[Str ''Books'', Num 8], [Str ''Food'', Num 15]]"
    by (rule ledger_run)
  note run' = run [unfolded manipulate_def]
  have "(0::nat) < length [ledger]" by simp
  note th = totals_entries_sorted [OF this run']
  have n: "[ledger, cleaned no_number no_date ledger, positive no_number no_date ledger] ! 1 =
      cleaned no_number no_date ledger"
    "[ledger, cleaned no_number no_date ledger, positive no_number no_date ledger] ! 2 =
      positive no_number no_date ledger"
    by simp_all
  have ex: "lib_sum exact_library = sum_list" by (simp add: exact_library_def)
  have f1: "rows (positive no_number no_date ledger) =
      filter (\<lambda>r. 0 < num_of (r ''Amount'')) (rows (cleaned no_number no_date ledger))"
    using th [THEN conjunct1] by (simp only: n)
  have f23: "(\<forall>e\<in>set (rows t). e ''Amount'' =
               Num (sum_list (map (\<lambda>r. num_of (r ''Amount''))
                      (filter (\<lambda>r. r ''Category'' = e ''Category'')
                        (rows (positive no_number no_date ledger)))))) \<and>
      sorted (map (\<lambda>e. [cell_key (e ''Category'')]) (rows t))"
    using th [THEN conjunct2] ledger_columns by (simp only: n if_False ex key_of_exact) blast
  have f2: "list_all (\<lambda>e. e ''Amount'' =
               Num (sum_list (map (\<lambda>r. num_of (r ''Amount''))
                      (filter (\<lambda>r. r ''Category'' = e ''Category'')
                        (rows (positive no_number no_date ledger)))))) (rows t)"
    using f23 [THEN conjunct1] by (simp only: list_all_iff)
  show ?thesis
    by (simp only: run' prod.case sum.case n)
      (intro conjI ledger_positive rws f1 f2 f23 [THEN conjunct2])
qed

text \<open>
  C2, as stated, fails where the library's arithmetic is not exact: with the sums of a
  column of 64-bit integers, the two positive Food rows 9223372036854775807 and 1 give
  the one Totals entry Food = -9223372036854775808, which is not their sum.
\<close>

theorem totals_wrap_counterexample:
  "(case manipulate_with int64_library no_number no_date 0 [big_ledger] of
      (Inl e, s') \<Rightarrow> False
    | (Inr (c, p, t, pv), s') \<Rightarrow>
        map (\<lambda>r. map r [''Category'', ''Amount'']) (rows (s' ! p)) =
          [[Str ''Food'', Num 9223372036854775807], [Str ''Food'', Num 1]] \<and>
        map (\<lambda>e. map e [''Category'', ''Amount'']) (rows t) =
          [[Str ''Food'', Num (- 9223372036854775808)]]) \<and>
   (9223372036854775807 :: rat) + 1 \<noteq> - 9223372036854775808"
proof -
  obtain t where run: "manipulate_with int64_library no_number no_date 0 [big_ledger] =
       (Inr (1, 2, t, None),
        [big_ledger, cleaned no_number no_date big_ledger,
         positive no_number no_date big_ledger])"
    and rws: "map (\<lambda>e. map e [''Category'', ''Amount'']) (rows t) =
         [[Str ''Food'', Num (- 9223372036854775808)]]"
    by (rule big_ledger_run)
  have n: "[big_ledger, cleaned no_number no_date big_ledger,
         positive no_number no_date big_ledger] ! 2 = positive no_number no_date big_ledger"
    by simp
  have ne: "(9223372036854775807 :: rat) + 1 \<noteq> - 9223372036854775808" by simp
  show ?thesis
    by (simp only: run prod.case sum.case n) (intro conjI big_ledger_positive rws ne)
qed




text \<open>
  C8. \<open>manipulate\<close> does not change the table it is given: after the call the store
  holds the same table at the address of the input, and every table that was in the
  store before the call is as it was. The tables it returns are at fresh addresses.
\<close>

theorem manipulate_keeps_input:
  assumes "a < length s"
  shows "snd (manipulate P D a s) ! a = s ! a \<and> take (length s) (snd (manipulate P D a s)) = s"
  using assms by (simp add: manipulate_eq nth_append)

theorem manipulate_keeps_input_witness:
  "snd (manipulate no_number no_date 0 [ledger]) ! 0 = ledger \<and>
   take 1 (snd (manipulate no_number no_date 0 [ledger])) = [ledger]"
  using manipulate_keeps_input [of 0 "[ledger]" no_number no_date] by simp

text \<open>
  C10. When the input table has no Amount column, every row of the cleaned table has
  Amount 1 and VAT_20 0.2, every row of the cleaned table is in the positive-only
  table, and the cleaned table has one row for each input row that is not entirely
  missing.
\<close>

theorem missing_amount_is_one:
  assumes "a < length s" and "''Amount'' \<notin> set (columns (s ! a))"
    and "manipulate P D a s = (Inr (c, p, t, pv), s')"
  shows "(\<forall>r\<in>set (rows (s' ! c)). r ''Amount'' = Num 1 \<and> r ''VAT_20'' = Num (1 / 5)) \<and>
         rows (s' ! p) = rows (s' ! c) \<and>
         length (rows (s' ! c)) =
           length (filter (\<lambda>r. \<not> list_all (\<lambda>k. r k = NA) (columns (s ! a))) (rows (s ! a)))"
proof -
  note m = manipulate_Inr [OF assms(1,3)]
  have one: "r ''Amount'' = Num 1" if "r \<in> set (rows (s' ! c))" for r
    using that assms(2) by (simp add: m(4) cleaned_amount_synthesized)
  have vat: "r ''VAT_20'' = Num (1 / 5)" if "r \<in> set (rows (s' ! c))" for r
    using cleaned_vat [of r P D "s ! a"] that one [OF that] round2_fifth by (simp add: m(4))
  have "rows (s' ! p) = filter (\<lambda>r. 0 < num_of (r ''Amount'')) (rows (s' ! c))"
    by (simp add: m(4,5) positive_filter)
  also have "\<dots> = rows (s' ! c)"
    by (auto simp: filter_id_conv dest: one)
  finally have "rows (s' ! p) = rows (s' ! c)" .
  then show ?thesis
    using one vat by (simp add: m(4) length_rows_cleaned)
qed

theorem missing_amount_is_one_witness:
  "''Amount'' \<notin> set (columns ([notes_only] ! 0)) \<and>
   map (\<lambda>r. map r [''Category'', ''Notes'', ''Amount'', ''VAT_20''])
     (rows (snd (manipulate no_number no_date 0 [notes_only]) ! 1)) =
     [[Str ''Food'', Str ''Lunch'', Num 1, Num (1 / 5)], [Str ''Rent'', NA, Num 1, Num (1 / 5)]] \<and>
   rows (snd (manipulate no_number no_date 0 [notes_only]) ! 2) =
     rows (snd (manipulate no_number no_date 0 [notes_only]) ! 1) \<and>
   length (rows (snd (manipulate no_number no_date 0 [notes_only]) ! 1)) = 2"
proof -
  obtain t where run: "manipulate no_number no_date 0 [notes_only] =
       (Inr (1, 2, t, None),
        [notes_only, cleaned no_number no_date notes_only,
         positive no_number no_date notes_only])"
    by (rule notes_only_run)
  have a: "(0::nat) < length [notes_only]" by simp
  have b: "''Amount'' \<notin> set (columns ([notes_only] ! 0))" by (simp add: notes_only_def)
  from missing_amount_is_one [OF a b run] notes_only_cleaned b show ?thesis
    by (simp add: run) (simp add: notes_only_def)
qed

end
